theory Spec2Isabelle
  imports Complex_Main
begin

section \<open>Xia fatigue dynamics (bioptim/dynamics/fatigue/xia_fatigue.py)\<close>

text \<open>
  The module builds CasADi expressions; a symbolic scalar denotes a real number, so
  scalars are modelled as \<^typ>\<open>real\<close>: \<open>if_else(c, a, b)\<close> is \<open>if c then a else b\<close>,
  \<open>lt\<close> is \<open><\<close>, \<open>gt\<close> is \<open>>\<close>. A tuple of numbers and a column vector (one scalar per
  row, the result of \<open>vertcat\<close>) are lists of reals. Exceptions are values of the type
  \<open>error\<close>.
\<close>

subsection \<open>Data\<close>

datatype error =
  NotImplementedError | TypeError | KeyError | IndexError | ValueError | RuntimeError

text \<open>The enumeration \<open>VariableType\<close> of \<open>misc/enums.py\<close>.\<close>

datatype VariableType = STATES | CONTROLS

text \<open>The fields set by \<open>XiaFatigue.__init__\<close> (\<open>scale\<close> defaults to 1 there).\<close>

record XiaFatigue =
  LD :: real
  LR :: real
  F :: real
  R :: real
  scale :: real

subsection \<open>Bind on results\<close>

definition bind_err :: "error + 'a \<Rightarrow> ('a \<Rightarrow> error + 'b) \<Rightarrow> error + 'b" where
  "bind_err r f = (case r of Inl e \<Rightarrow> Inl e | Inr v \<Rightarrow> f v)"

subsection \<open>XiaFatigue: metadata, initial guess, bounds\<close>

text \<open>
  \<open>suffix\<close> is a static method with one required parameter, \<open>variable_type\<close>. The
  argument is optional in the model so that a call that supplies none (\<open>self.suffix()\<close>)
  is a branch: Python raises \<open>TypeError\<close> for the missing positional argument.
\<close>

fun suffix :: "VariableType option \<Rightarrow> error + string list" where
  "suffix None = Inl TypeError"
| "suffix (Some STATES) = Inr [''ma'', ''mr'', ''mf'']"
| "suffix (Some CONTROLS) = Inr ['''']"

definition default_initial_guess :: "XiaFatigue \<Rightarrow> real list" where
  "default_initial_guess self = [0, 1, 0]"

definition default_bounds :: "XiaFatigue \<Rightarrow> VariableType \<Rightarrow> real list \<times> real list" where
  "default_bounds self variable_type = ([0, 0, 0], [1, 1, 1])"

subsection \<open>XiaFatigue.apply\_dynamics\<close>

text \<open>The local \<open>c\<close> of \<open>apply_dynamics\<close>, the transfer rate from rest to active.\<close>

definition transfer_rate :: "XiaFatigue \<Rightarrow> real \<Rightarrow> real \<Rightarrow> real \<Rightarrow> real" where
  "transfer_rate self target_load ma mr =
     (if ma < target_load
      then (if mr > target_load - ma then LD self * (target_load - ma) else LD self * mr)
      else LR self * (target_load - ma))"

text \<open>
  \<open>ma, mr, mf = states\<close> unpacks exactly three values and raises \<open>ValueError\<close>
  otherwise.
\<close>

fun apply_dynamics :: "XiaFatigue \<Rightarrow> real \<Rightarrow> real list \<Rightarrow> error + real list" where
  "apply_dynamics self target_load [ma, mr, mf] =
     (let c = transfer_rate self target_load ma mr;
          ma_dot = c - F self * ma;
          mr_dot = - c + R self * mf;
          mf_dot = F self * ma - R self * mf
      in Inr [ma_dot, mr_dot, mf_dot])"
| "apply_dynamics self target_load states = Inl ValueError"

subsection \<open>The engine's containers\<close>

text \<open>
  Modelled from the spec: the engine's context \<open>nlp\<close>, its variable descriptors and
  \<open>DynamicsFunctions.get\<close> are not part of this module. The context exposes named state
  and control channel collections keyed by strings (here two dictionaries; a missing name
  is a \<open>KeyError\<close>); a channel records in \<open>index\<close> the rows it occupies in the combined
  state (or control) vector; \<open>DynamicsFunctions.get(var, cx)\<close> reads those rows of \<open>cx\<close>,
  and \<open>[index, :]\<close> selects one of them. Positions are natural numbers. Reading or writing
  a row that a CasADi matrix does not have is a \<open>RuntimeError\<close>: a matrix is never
  resized by an access.
\<close>

record OptimizationVariable =
  var_index :: "nat list"

record NonLinearProgram =
  nlp_controls :: "string \<rightharpoonup> OptimizationVariable"
  nlp_states :: "string \<rightharpoonup> OptimizationVariable"

definition lookup :: "(string \<rightharpoonup> 'a) \<Rightarrow> string \<Rightarrow> error + 'a" where
  "lookup d k = (case d k of None \<Rightarrow> Inl KeyError | Some v \<Rightarrow> Inr v)"

definition item :: "'a list \<Rightarrow> nat \<Rightarrow> error + 'a" where
  "item xs i = (if i < length xs then Inr (xs ! i) else Inl IndexError)"

definition row :: "real list \<Rightarrow> nat \<Rightarrow> error + real" where
  "row cx i = (if i < length cx then Inr (cx ! i) else Inl RuntimeError)"

definition set_row :: "real list \<Rightarrow> nat \<Rightarrow> real \<Rightarrow> error + real list" where
  "set_row cx i v = (if i < length cx then Inr (cx[i := v]) else Inl RuntimeError)"

fun rows :: "real list \<Rightarrow> nat list \<Rightarrow> error + real list" where
  "rows cx [] = Inr []"
| "rows cx (i # is) =
     bind_err (row cx i) (\<lambda>v. bind_err (rows cx is) (\<lambda>vs. Inr (v # vs)))"

definition DynamicsFunctions_get :: "OptimizationVariable \<Rightarrow> real list \<Rightarrow> error + real list" where
  "DynamicsFunctions_get var cx = rows cx (var_index var)"

subsection \<open>XiaFatigue.dynamics\<close>

definition get_target_load ::
  "XiaFatigue \<Rightarrow> NonLinearProgram \<Rightarrow> real list \<Rightarrow> nat \<Rightarrow> error + real" where
  "get_target_load self nlp controls index =
     (if nlp_controls nlp ''muscles'' = None then Inl NotImplementedError
      else bind_err (lookup (nlp_controls nlp) ''muscles'') (\<lambda>var.
           bind_err (DynamicsFunctions_get var controls) (\<lambda>cx.
           row cx index)))"

text \<open>
  The comprehension \<open>[DynamicsFunctions.get(nlp.states[name], states)[index, :] for s in ...]\<close>,
  where \<open>name\<close> is \<open>prefix\<close> followed by the label \<open>s\<close>.
\<close>

fun fatigue_states ::
  "NonLinearProgram \<Rightarrow> string \<Rightarrow> real list \<Rightarrow> nat \<Rightarrow> string list \<Rightarrow> error + real list" where
  "fatigue_states nlp prefix states index [] = Inr []"
| "fatigue_states nlp prefix states index (s # ss) =
     bind_err (lookup (nlp_states nlp) (prefix @ s)) (\<lambda>var.
     bind_err (DynamicsFunctions_get var states) (\<lambda>cx.
     bind_err (row cx index) (\<lambda>v.
     bind_err (fatigue_states nlp prefix states index ss) (\<lambda>vs.
     Inr (v # vs)))))"

text \<open>
  \<open>dxdt\<close> is mutated in place, so an exception leaves the caller with the vector as
  written so far: \<open>Raised e v\<close> is the exception \<open>e\<close> with the caller's vector holding
  \<open>v\<close>, \<open>Returned v\<close> is the normal return of the vector, holding \<open>v\<close>. \<open>NonFinite\<close>
  is a run that goes on to compute with a value that is no real number (see \<open>true_divide\<close>
  below); the model does not follow such a run and says nothing about its vector.
\<close>

datatype dyn_result = Raised error "real list" | Returned "real list" | NonFinite

text \<open>
  The loop \<open>for i, s in enumerate(...): dxdt[nlp.states[name].index[index], :] = current_dxdt[i]\<close>.
  Python evaluates the right-hand side, then the subscript of the target, then stores.
\<close>

fun write_back ::
  "NonLinearProgram \<Rightarrow> string \<Rightarrow> nat \<Rightarrow> real list \<Rightarrow> (nat \<times> string) list \<Rightarrow> real list
   \<Rightarrow> dyn_result" where
  "write_back nlp prefix index current_dxdt [] dxdt = Returned dxdt"
| "write_back nlp prefix index current_dxdt ((i, s) # rest) dxdt =
     (case bind_err (row current_dxdt i) (\<lambda>v.
           bind_err (lookup (nlp_states nlp) (prefix @ s)) (\<lambda>var.
           bind_err (item (var_index var) index) (\<lambda>r.
           set_row dxdt r v))) of
        Inl e \<Rightarrow> Raised e dxdt
      | Inr dxdt' \<Rightarrow> write_back nlp prefix index current_dxdt rest dxdt')"

text \<open>
  \<open>XiaFatigue.dynamics\<close>. Line 95 calls \<open>self.suffix(VariableType.STATES)\<close>; the loop
  header at line 98 calls \<open>self.suffix()\<close>, with no argument.
\<close>

definition dynamics ::
  "XiaFatigue \<Rightarrow> real list \<Rightarrow> NonLinearProgram \<Rightarrow> nat \<Rightarrow> real list \<Rightarrow> real list \<Rightarrow> dyn_result" where
  "dynamics self dxdt nlp index states controls =
     (case get_target_load self nlp controls index of
        Inl e \<Rightarrow> Raised e dxdt
      | Inr target_load \<Rightarrow>
     (case bind_err (suffix (Some STATES)) (fatigue_states nlp ''muscles_'' states index) of
        Inl e \<Rightarrow> Raised e dxdt
      | Inr fatigue \<Rightarrow>
     (case apply_dynamics self target_load fatigue of
        Inl e \<Rightarrow> Raised e dxdt
      | Inr current_dxdt \<Rightarrow>
     (case suffix None of
        Inl e \<Rightarrow> Raised e dxdt
      | Inr ss \<Rightarrow> write_back nlp ''muscles_'' index current_dxdt (enumerate 0 ss) dxdt))))"

subsection \<open>XiaTauFatigue\<close>

text \<open>
  Modelled from the spec: the base class \<open>MultiFatigueModel\<close> is not part of this module.
  Its constructor receives the ordered list \<open>[minus, plus]\<close> and the flag \<open>state_only\<close> and
  stores the sub-models under the positional keys given by \<open>suffix()\<close> (the parameter
  \<open>suffix\<close> of the methods below is written \<open>sfx\<close>);
  \<open>_convert_to_models_key(index)\<close> is the key at position \<open>index\<close>, and an index outside
  the configured key range is an error.
\<close>

record XiaTauFatigue =
  models :: "(string \<times> XiaFatigue) list"
  state_only :: bool

definition tau_suffix :: "string list" where
  "tau_suffix = [''minus'', ''plus'']"

definition XiaTauFatigue_init :: "XiaFatigue \<Rightarrow> XiaFatigue \<Rightarrow> bool \<Rightarrow> XiaTauFatigue" where
  "XiaTauFatigue_init m_minus m_plus so =
     \<lparr>models = zip tau_suffix [m_minus, m_plus], state_only = so\<rparr>"

definition convert_to_models_key :: "XiaTauFatigue \<Rightarrow> nat \<Rightarrow> error + string" where
  "convert_to_models_key self index = item (map fst (models self)) index"

text \<open>
  The division \<open>x / var.scale\<close> of a CasADi expression by a number. A zero divisor raises
  nothing: the quotient evaluates to an infinity or to nan, which no real number denotes.
  The quotient is \<open>None\<close> there, never the \<open>0\<close> of division in HOL.
\<close>

definition true_divide :: "real \<Rightarrow> real \<Rightarrow> real option" where
  "true_divide x y = (if y = 0 then None else Some (x / y))"

definition tau_get_target_load ::
  "XiaTauFatigue \<Rightarrow> XiaFatigue \<Rightarrow> string \<Rightarrow> NonLinearProgram \<Rightarrow> real list \<Rightarrow> nat
   \<Rightarrow> error + real option" where
  "tau_get_target_load self var sfx nlp controls index =
     (if nlp_controls nlp ''tau'' = None then Inl NotImplementedError
      else bind_err (lookup (nlp_controls nlp) (''tau_'' @ sfx)) (\<lambda>ch.
           bind_err (DynamicsFunctions_get ch controls) (\<lambda>cx.
           bind_err (row cx index) (\<lambda>v.
           Inr (true_divide v (scale var))))))"

text \<open>
  \<open>XiaTauFatigue._dynamics_per_suffix\<close>. The target load is looked up first and the
  fatigue states next, so the exceptions of both come in the source's order; a target load
  that is no real number is first used by \<open>apply_dynamics\<close>, and the run is \<open>NonFinite\<close>
  from there.
\<close>

definition dynamics_per_suffix ::
  "XiaTauFatigue \<Rightarrow> real list \<Rightarrow> string \<Rightarrow> NonLinearProgram \<Rightarrow> nat \<Rightarrow> real list \<Rightarrow> real list
   \<Rightarrow> dyn_result" where
  "dynamics_per_suffix self dxdt sfx nlp index states controls =
     (case lookup (map_of (models self)) sfx of
        Inl e \<Rightarrow> Raised e dxdt
      | Inr var \<Rightarrow>
     (case tau_get_target_load self var sfx nlp controls index of
        Inl e \<Rightarrow> Raised e dxdt
      | Inr target_load \<Rightarrow>
     (case bind_err (suffix (Some STATES))
             (fatigue_states nlp (''tau_'' @ sfx @ ''_'') states index) of
        Inl e \<Rightarrow> Raised e dxdt
      | Inr fatigue \<Rightarrow>
     (case target_load of
        None \<Rightarrow> NonFinite
      | Some target_load \<Rightarrow>
     (case apply_dynamics var target_load fatigue of
        Inl e \<Rightarrow> Raised e dxdt
      | Inr current_dxdt \<Rightarrow>
     (case suffix (Some STATES) of
        Inl e \<Rightarrow> Raised e dxdt
      | Inr ss \<Rightarrow>
          write_back nlp (''tau_'' @ sfx @ ''_'') index current_dxdt (enumerate 0 ss) dxdt))))))"

definition tau_default_bounds ::
  "XiaTauFatigue \<Rightarrow> nat \<Rightarrow> VariableType \<Rightarrow> error + real list \<times> real list" where
  "tau_default_bounds self index variable_type =
     bind_err (convert_to_models_key self index) (\<lambda>key.
       if variable_type = STATES
       then bind_err (lookup (map_of (models self)) key) (\<lambda>m.
              Inr (default_bounds m variable_type))
       else bind_err (lookup (map_of (models self)) key) (\<lambda>m.
              let scale = scale m
              in Inr ([if index = 0 then scale else 0], [if index = 1 then scale else 0])))"

definition tau_default_initial_guess ::
  "XiaTauFatigue \<Rightarrow> nat \<Rightarrow> VariableType \<Rightarrow> error + real list" where
  "tau_default_initial_guess self index variable_type =
     bind_err (convert_to_models_key self index) (\<lambda>key.
     bind_err (lookup (map_of (models self)) key) (\<lambda>m.
     Inr (default_initial_guess m)))"

section \<open>Helper lemmas\<close>

subsection \<open>Which errors each stage can raise\<close>

lemma rows_error: "rows cx is = Inl e \<Longrightarrow> e = RuntimeError"
  by (induction "is" arbitrary: e)
     (auto simp: bind_err_def row_def split: sum.splits if_splits)

lemma rows_length: "rows cx is = Inr vs \<Longrightarrow> length vs = length is"
  by (induction "is" arbitrary: vs) (auto simp: bind_err_def split: sum.splits)

lemma fatigue_states_error:
  "fatigue_states nlp prefix states index ss = Inl e \<Longrightarrow> e = KeyError \<or> e = RuntimeError"
  by (induction ss arbitrary: e)
     (auto simp: bind_err_def row_def lookup_def DynamicsFunctions_get_def
           split: sum.splits if_splits option.splits dest: rows_error)

lemma gather_error:
  "bind_err (Inr ss) (fatigue_states nlp prefix states index) = Inl e \<Longrightarrow>
     e = KeyError \<or> e = RuntimeError"
  using fatigue_states_error [of nlp prefix states index ss e]
  by (simp add: bind_err_def del: fatigue_states.simps)

lemma write_back_error:
  "write_back nlp prefix index cur iss dxdt = Raised e v \<Longrightarrow>
     e = KeyError \<or> e = RuntimeError \<or> e = IndexError"
  by (induction iss arbitrary: dxdt)
     (auto simp: bind_err_def row_def lookup_def item_def set_row_def
           split: sum.splits if_splits option.splits)

lemma apply_dynamics_error: "apply_dynamics self t xs = Inl e \<Longrightarrow> e = ValueError"
  by (cases "(self, t, xs)" rule: apply_dynamics.cases) (auto simp: Let_def)

lemma get_target_load_unsupported:
  "get_target_load self nlp controls index = Inl NotImplementedError
     \<longleftrightarrow> nlp_controls nlp ''muscles'' = None"
  by (auto simp: get_target_load_def bind_err_def lookup_def row_def DynamicsFunctions_get_def
        split: sum.splits if_splits option.splits dest: rows_error)

lemma tau_get_target_load_unsupported:
  "tau_get_target_load tau var sfx nlp controls index = Inl NotImplementedError
     \<longleftrightarrow> nlp_controls nlp ''tau'' = None"
  by (auto simp: tau_get_target_load_def bind_err_def lookup_def row_def
        DynamicsFunctions_get_def
        split: sum.splits if_splits option.splits dest: rows_error)

lemma dynamics_unsupported:
  "dynamics self dxdt nlp index states controls = Raised NotImplementedError v
     \<longleftrightarrow> nlp_controls nlp ''muscles'' = None \<and> v = dxdt"
proof (cases "get_target_load self nlp controls index")
  case (Inl e)
  then show ?thesis
    using get_target_load_unsupported [of self nlp controls index]
    by (auto simp: dynamics_def)
next
  case (Inr target_load)
  then have present: "nlp_controls nlp ''muscles'' \<noteq> None"
    using get_target_load_unsupported [of self nlp controls index] by auto
  have "dynamics self dxdt nlp index states controls \<noteq> Raised NotImplementedError v"
    using Inr
    by (auto simp: dynamics_def simp del: fatigue_states.simps apply_dynamics.simps
          split: sum.splits dest: gather_error apply_dynamics_error)
  with present show ?thesis by simp
qed

lemma dynamics_per_suffix_unsupported:
  assumes "map_of (models tau) sfx = Some var"
  shows "dynamics_per_suffix tau dxdt sfx nlp index states controls
           = Raised NotImplementedError v
         \<longleftrightarrow> nlp_controls nlp ''tau'' = None \<and> v = dxdt"
proof (cases "tau_get_target_load tau var sfx nlp controls index")
  case (Inl e)
  then show ?thesis
    using assms tau_get_target_load_unsupported [of tau var sfx nlp controls index]
    by (auto simp: dynamics_per_suffix_def lookup_def)
next
  case (Inr target_load)
  then have present: "nlp_controls nlp ''tau'' \<noteq> None"
    using tau_get_target_load_unsupported [of tau var sfx nlp controls index] by auto
  have "dynamics_per_suffix tau dxdt sfx nlp index states controls
          \<noteq> Raised NotImplementedError v"
    using Inr assms
    by (auto simp: dynamics_per_suffix_def lookup_def
          simp del: fatigue_states.simps apply_dynamics.simps write_back.simps
          split: sum.splits option.splits
          dest: gather_error apply_dynamics_error write_back_error)
  with present show ?thesis by simp
qed

subsection \<open>The two target-load lookups\<close>

text \<open>The single-muscle lookup never reads the model: its result is the same for every scale.\<close>

lemma get_target_load_ignores_model:
  "get_target_load self nlp controls index = get_target_load self' nlp controls index"
  by (simp add: get_target_load_def)

text \<open>
  The per-direction lookup divides the raw control by the sub-model's scale, so for a
  scale other than zero a raw control equal to the scale gives the target load 1.
\<close>

lemma tau_get_target_load_divides:
  assumes "nlp_controls nlp ''tau'' \<noteq> None"
    and "nlp_controls nlp (''tau_'' @ sfx) = Some ch"
    and "DynamicsFunctions_get ch controls = Inr cu" and "index < length cu"
  shows "tau_get_target_load tau var sfx nlp controls index
           = Inr (true_divide (cu ! index) (scale var))"
  using assms by (auto simp: tau_get_target_load_def lookup_def bind_err_def row_def)

lemma true_divide_by_itself: "y \<noteq> 0 \<Longrightarrow> true_divide y y = Some 1"
  by (simp add: true_divide_def)

subsection \<open>The two dynamics entry points\<close>

text \<open>
  \<open>XiaFatigue.dynamics\<close> never returns and never writes: whatever the context, it ends in
  an exception with the caller's vector untouched, because the loop header \<open>self.suffix()\<close>
  raises before the first store.
\<close>

lemma dynamics_never_returns:
  "\<exists>e. dynamics self dxdt nlp index states controls = Raised e dxdt"
  by (simp add: dynamics_def split: sum.splits)

text \<open>
  The sibling \<open>XiaTauFatigue._dynamics_per_suffix\<close> passes the variable type to \<open>suffix\<close>.
  Where the context has the channels it reads and their rows exist, it returns the caller's
  vector with exactly the three slots of \<open>ma\<close>, \<open>mr\<close>, \<open>mf\<close> overwritten by the output of
  \<open>apply_dynamics\<close>.
\<close>

lemma dynamics_per_suffix_writes:
  assumes "map_of (models tau) sfx = Some var"
    and "nlp_controls nlp ''tau'' \<noteq> None"
    and "nlp_controls nlp (''tau_'' @ sfx) = Some ch"
    and "DynamicsFunctions_get ch controls = Inr cu" and "index < length cu"
    and "nlp_states nlp (''tau_'' @ sfx @ ''_ma'') = Some va"
    and "DynamicsFunctions_get va states = Inr xa" and "index < length xa"
    and "nlp_states nlp (''tau_'' @ sfx @ ''_mr'') = Some vr"
    and "DynamicsFunctions_get vr states = Inr xr" and "index < length xr"
    and "nlp_states nlp (''tau_'' @ sfx @ ''_mf'') = Some vf"
    and "DynamicsFunctions_get vf states = Inr xf" and "index < length xf"
    and "var_index va ! index < length dxdt"
    and "var_index vr ! index < length dxdt"
    and "var_index vf ! index < length dxdt"
    and "apply_dynamics var (cu ! index / scale var) [xa ! index, xr ! index, xf ! index]
           = Inr [ma_dot, mr_dot, mf_dot]"
    and "scale var \<noteq> 0"
  shows "dynamics_per_suffix tau dxdt sfx nlp index states controls =
           Returned (dxdt[var_index va ! index := ma_dot,
                          var_index vr ! index := mr_dot,
                          var_index vf ! index := mf_dot])"
proof -
  have lens: "index < length (var_index va)" "index < length (var_index vr)"
    "index < length (var_index vf)"
    using assms rows_length by (fastforce simp: DynamicsFunctions_get_def)+
  have tgt: "tau_get_target_load tau var sfx nlp controls index
      = Inr (Some (cu ! index / scale var))"
    using assms(2-5,19) tau_get_target_load_divides [of nlp sfx ch controls cu index tau var]
    by (simp add: true_divide_def)
  have fat: "fatigue_states nlp (''tau_'' @ sfx @ ''_'') states index [''ma'', ''mr'', ''mf'']
      = Inr [xa ! index, xr ! index, xf ! index]"
    using assms(6-14) by (simp add: lookup_def bind_err_def row_def)
  have wr: "write_back nlp (''tau_'' @ sfx @ ''_'') index [ma_dot, mr_dot, mf_dot]
       (enumerate 0 [''ma'', ''mr'', ''mf'']) dxdt
      = Returned (dxdt[var_index va ! index := ma_dot,
                       var_index vr ! index := mr_dot,
                       var_index vf ! index := mf_dot])"
    using assms(6,9,12,15-17) lens
    by (simp add: lookup_def bind_err_def row_def item_def set_row_def)
  show ?thesis
    using assms(1,18) tgt fat wr
    by (simp add: dynamics_per_suffix_def lookup_def bind_err_def
        del: fatigue_states.simps apply_dynamics.simps write_back.simps)
qed

lemma dynamics_per_suffix_example:
  "dynamics_per_suffix
     (XiaTauFatigue_init \<lparr>LD = 1, LR = 1, F = 1, R = 1, scale = - 1\<rparr>
        \<lparr>LD = 1, LR = 1, F = 1, R = 1, scale = 1\<rparr> True)
     [0, 0, 0] ''plus''
     \<lparr>nlp_controls = [''tau'' \<mapsto> \<lparr>var_index = [0]\<rparr>, ''tau_plus'' \<mapsto> \<lparr>var_index = [0]\<rparr>],
      nlp_states = [''tau_plus_ma'' \<mapsto> \<lparr>var_index = [0]\<rparr>,
                    ''tau_plus_mr'' \<mapsto> \<lparr>var_index = [1]\<rparr>,
                    ''tau_plus_mf'' \<mapsto> \<lparr>var_index = [2]\<rparr>]\<rparr>
     0 [1/10, 9/10, 0] [1/2]
   = Returned [3/10, - (2/5), 1/10]"
  by (simp add: dynamics_per_suffix_def XiaTauFatigue_init_def tau_suffix_def
      tau_get_target_load_def true_divide_def lookup_def DynamicsFunctions_get_def row_def
      item_def set_row_def bind_err_def Let_def transfer_rate_def)

text \<open>With a sub-model of scale zero the same call leaves the real numbers.\<close>

lemma dynamics_per_suffix_zero_scale:
  "dynamics_per_suffix
     (XiaTauFatigue_init \<lparr>LD = 1, LR = 1, F = 1, R = 1, scale = - 1\<rparr>
        \<lparr>LD = 1, LR = 1, F = 1, R = 1, scale = 0\<rparr> True)
     [0, 0, 0] ''plus''
     \<lparr>nlp_controls = [''tau'' \<mapsto> \<lparr>var_index = [0]\<rparr>, ''tau_plus'' \<mapsto> \<lparr>var_index = [0]\<rparr>],
      nlp_states = [''tau_plus_ma'' \<mapsto> \<lparr>var_index = [0]\<rparr>,
                    ''tau_plus_mr'' \<mapsto> \<lparr>var_index = [1]\<rparr>,
                    ''tau_plus_mf'' \<mapsto> \<lparr>var_index = [2]\<rparr>]\<rparr>
     0 [1/10, 9/10, 0] [1/2]
   = NonFinite"
  by (simp add: dynamics_per_suffix_def XiaTauFatigue_init_def tau_suffix_def
      tau_get_target_load_def true_divide_def lookup_def DynamicsFunctions_get_def row_def
      bind_err_def)

subsection \<open>Positional lookup in the composite\<close>

lemma models_at_position:
  assumes "distinct (map fst (models tau))" and "k < length (models tau)"
  shows "convert_to_models_key tau k = Inr (fst (models tau ! k))"
    and "lookup (map_of (models tau)) (fst (models tau ! k)) = Inr (snd (models tau ! k))"
proof -
  show "convert_to_models_key tau k = Inr (fst (models tau ! k))"
    using assms(2) by (simp add: convert_to_models_key_def item_def)
  have "(fst (models tau ! k), snd (models tau ! k)) \<in> set (models tau)"
    using assms(2) by simp
  then have "map_of (models tau) (fst (models tau ! k)) = Some (snd (models tau ! k))"
    using assms(1) by simp
  then show "lookup (map_of (models tau)) (fst (models tau ! k)) = Inr (snd (models tau ! k))"
    by (simp add: lookup_def)
qed

lemma init_models:
  "models (XiaTauFatigue_init m_minus m_plus so) = [(''minus'', m_minus), (''plus'', m_plus)]"
  by (simp add: XiaTauFatigue_init_def tau_suffix_def)

subsection \<open>The transfer rate below the target\<close>

lemma transfer_rate_min:
  "ma < target_load \<Longrightarrow>
     transfer_rate self target_load ma mr = LD self * min mr (target_load - ma)"
  by (simp add: transfer_rate_def min_def)

section \<open>Properties of the switched law\<close>

text \<open>
  C1. Conservation: for every parameter tuple and every input, \<open>apply_dynamics\<close> returns
  three derivatives whose sum is exactly zero, in both regimes.
\<close>

theorem apply_dynamics_conservation:
  "\<exists>ma_dot mr_dot mf_dot.
     apply_dynamics self target_load [ma, mr, mf] = Inr [ma_dot, mr_dot, mf_dot]
     \<and> ma_dot + mr_dot + mf_dot = 0"
  by (simp add: Let_def)

text \<open>
  C2. Relaxation regime: whenever \<open>ma \<ge> target_load\<close>, equality included, the transfer
  rate is \<open>LR * (target_load - ma)\<close> whatever \<open>mr\<close> and \<open>mf\<close> are, and the derivatives are
  \<open>c - F*ma\<close>, \<open>-c + R*mf\<close>, \<open>F*ma - R*mf\<close>.
\<close>

theorem relaxation_regime:
  "target_load \<le> ma \<Longrightarrow>
     transfer_rate self target_load ma mr = LR self * (target_load - ma)
     \<and> apply_dynamics self target_load [ma, mr, mf] =
         Inr [LR self * (target_load - ma) - F self * ma,
              - (LR self * (target_load - ma)) + R self * mf,
              F self * ma - R self * mf]"
  by (simp add: transfer_rate_def Let_def)

text \<open>The first scenario of the specification: state \<open>(0.5, 0.5, 0)\<close>, target \<open>0.3\<close>.\<close>

theorem relaxation_regime_witness:
  "(3/10::real) \<le> 1/2
   \<and> transfer_rate \<lparr>LD = 1, LR = 1, F = 1, R = 1, scale = 1\<rparr> (3/10) (1/2) (1/2) = - (1/5)
   \<and> apply_dynamics \<lparr>LD = 1, LR = 1, F = 1, R = 1, scale = 1\<rparr> (3/10) [1/2, 1/2, 0] =
       Inr [- (7/10), 1/5, 1/2]"
  using relaxation_regime [of "3/10" "1/2" "\<lparr>LD = 1, LR = 1, F = 1, R = 1, scale = 1\<rparr>" "1/2" 0]
  by simp

text \<open>
  C3. Development regime: whenever \<open>ma < target_load\<close>, \<open>apply_dynamics\<close> computes the
  transfer rate \<open>c\<close> as \<open>LD * (target_load - ma)\<close> if \<open>mr > target_load - ma\<close> and as
  \<open>LD * mr\<close> otherwise, and returns \<open>c - F*ma\<close>, \<open>-c + R*mf\<close>, \<open>F*ma - R*mf\<close>; the two
  formulas agree at \<open>mr = target_load - ma\<close>, where the result is that of either formula,
  and the rate and the two derivatives that contain it are continuous in \<open>mr\<close> there.
\<close>

theorem development_regime:
  "ma < target_load \<Longrightarrow>
     transfer_rate self target_load ma mr =
       (if mr > target_load - ma then LD self * (target_load - ma) else LD self * mr)
     \<and> (mr > target_load - ma \<longrightarrow>
          apply_dynamics self target_load [ma, mr, mf] =
            Inr [LD self * (target_load - ma) - F self * ma,
                 - (LD self * (target_load - ma)) + R self * mf,
                 F self * ma - R self * mf])
     \<and> (\<not> mr > target_load - ma \<longrightarrow>
          apply_dynamics self target_load [ma, mr, mf] =
            Inr [LD self * mr - F self * ma,
                 - (LD self * mr) + R self * mf,
                 F self * ma - R self * mf])
     \<and> apply_dynamics self target_load [ma, target_load - ma, mf] =
          Inr [LD self * (target_load - ma) - F self * ma,
               - (LD self * (target_load - ma)) + R self * mf,
               F self * ma - R self * mf]
     \<and> (mr = target_load - ma \<longrightarrow> LD self * (target_load - ma) = LD self * mr)
     \<and> isCont (\<lambda>x. transfer_rate self target_load ma x) (target_load - ma)
     \<and> isCont (\<lambda>x. case apply_dynamics self target_load [ma, x, mf] of
                      Inr ds \<Rightarrow> ds ! 0 | Inl e \<Rightarrow> 0) (target_load - ma)
     \<and> isCont (\<lambda>x. case apply_dynamics self target_load [ma, x, mf] of
                      Inr ds \<Rightarrow> ds ! 1 | Inl e \<Rightarrow> 0) (target_load - ma)"
proof -
  assume below: "ma < target_load"
  have rate: "(\<lambda>x. transfer_rate self target_load ma x)
      = (\<lambda>x. LD self * min x (target_load - ma))"
    using below by (simp add: transfer_rate_min fun_eq_iff)
  have ma_dot: "(\<lambda>x. case apply_dynamics self target_load [ma, x, mf] of
                      Inr ds \<Rightarrow> ds ! 0 | Inl e \<Rightarrow> 0)
      = (\<lambda>x. LD self * min x (target_load - ma) - F self * ma)"
    using below by (simp add: transfer_rate_min fun_eq_iff Let_def)
  have mr_dot: "(\<lambda>x. case apply_dynamics self target_load [ma, x, mf] of
                      Inr ds \<Rightarrow> ds ! 1 | Inl e \<Rightarrow> 0)
      = (\<lambda>x. - (LD self * min x (target_load - ma)) + R self * mf)"
    using below by (simp add: transfer_rate_min fun_eq_iff Let_def)
  have c1: "isCont (\<lambda>x. LD self * min x (target_load - ma)) (target_load - ma)"
    by (intro continuous_intros)
  have c2: "isCont (\<lambda>x. LD self * min x (target_load - ma) - F self * ma) (target_load - ma)"
    by (intro continuous_intros)
  have c3: "isCont (\<lambda>x. - (LD self * min x (target_load - ma)) + R self * mf)
      (target_load - ma)"
    by (intro continuous_intros)
  have vals: "transfer_rate self target_load ma mr =
       (if mr > target_load - ma then LD self * (target_load - ma) else LD self * mr)"
    "transfer_rate self target_load ma (target_load - ma) = LD self * (target_load - ma)"
    using below by (simp_all add: transfer_rate_def)
  show ?thesis
    unfolding rate ma_dot mr_dot
    using c1 c2 c3 vals by (simp add: Let_def)
qed

text \<open>The second scenario of the specification: state \<open>(0.1, 0.9, 0)\<close>, target \<open>0.5\<close>.\<close>

theorem development_regime_witness:
  "(1/10::real) < 1/2 \<and> (9/10::real) > 1/2 - 1/10
   \<and> transfer_rate \<lparr>LD = 1, LR = 1, F = 1, R = 1, scale = 1\<rparr> (1/2) (1/10) (9/10) = 2/5
   \<and> apply_dynamics \<lparr>LD = 1, LR = 1, F = 1, R = 1, scale = 1\<rparr> (1/2) [1/10, 9/10, 0] = Inr [3/10, - (2/5), 1/10]
   \<and> apply_dynamics \<lparr>LD = 1, LR = 1, F = 1, R = 1, scale = 1\<rparr> (1/2) [1/10, 2/5, 0] = Inr [3/10, - (2/5), 1/10]
   \<and> isCont (\<lambda>x. transfer_rate \<lparr>LD = 1, LR = 1, F = 1, R = 1, scale = 1\<rparr> (1/2) (1/10) x) (2/5)"
  using development_regime [of "1/10" "1/2" "\<lparr>LD = 1, LR = 1, F = 1, R = 1, scale = 1\<rparr>" "9/10" 0]
  by simp

section \<open>Target load and the dynamics entry points\<close>

text \<open>
  C4. The claim is that both lookups return the raw control divided by the model's scale, so
  that a raw control equal to the scale gives the target load 1. The single-muscle lookup
  \<open>XiaFatigue._get_target_load\<close> returns the raw control itself: for a model of scale 2 and a
  raw control 2 the target load is 2.
\<close>

theorem get_target_load_at_scale:
  "get_target_load \<lparr>LD = 1, LR = 1, F = 1, R = 1, scale = 2\<rparr>
     \<lparr>nlp_controls = [''muscles'' \<mapsto> \<lparr>var_index = [0]\<rparr>], nlp_states = Map.empty\<rparr> [2] 0
   = Inr 2"
  by (simp add: get_target_load_def lookup_def DynamicsFunctions_get_def row_def bind_err_def)

text \<open>
  C5. The claim is that both entry points complete, store the three derivatives and return
  the vector. \<open>XiaFatigue.dynamics\<close> raises \<open>TypeError\<close> on a context that has every channel
  it reads, and stores nothing.
\<close>

theorem dynamics_raises_TypeError:
  "dynamics \<lparr>LD = 1, LR = 1, F = 1, R = 1, scale = 1\<rparr> [0, 0, 0]
     \<lparr>nlp_controls = [''muscles'' \<mapsto> \<lparr>var_index = [0]\<rparr>],
      nlp_states = [''muscles_ma'' \<mapsto> \<lparr>var_index = [0]\<rparr>,
                    ''muscles_mr'' \<mapsto> \<lparr>var_index = [1]\<rparr>,
                    ''muscles_mf'' \<mapsto> \<lparr>var_index = [2]\<rparr>]\<rparr>
     0 [1/10, 9/10, 0] [1/2]
   = Raised TypeError [0, 0, 0]"
  by (simp add: dynamics_def get_target_load_def lookup_def DynamicsFunctions_get_def row_def
      bind_err_def Let_def transfer_rate_def)

text \<open>
  C6. \<open>XiaFatigue.dynamics\<close> raises \<open>NotImplementedError\<close> exactly when the \<open>muscles\<close> channel
  is missing from the controls, and the per-direction dynamics of a configured key raises it
  exactly when the \<open>tau\<close> channel is missing; when it is raised, the combined derivative
  vector is as the caller passed it.
\<close>

theorem unsupported_control_kind:
  "(dynamics self dxdt nlp index states controls = Raised NotImplementedError v
      \<longleftrightarrow> nlp_controls nlp ''muscles'' = None \<and> v = dxdt)
   \<and> (map_of (models tau) sfx \<noteq> None \<longrightarrow>
        (dynamics_per_suffix tau dxdt sfx nlp index states controls
           = Raised NotImplementedError v
         \<longleftrightarrow> nlp_controls nlp ''tau'' = None \<and> v = dxdt))"
  by (auto simp: dynamics_unsupported dynamics_per_suffix_unsupported)

theorem unsupported_control_kind_witness:
  "map_of (models (XiaTauFatigue_init \<lparr>LD = 1, LR = 1, F = 1, R = 1, scale = - 3\<rparr>
        \<lparr>LD = 1, LR = 1, F = 1, R = 1, scale = 5\<rparr> True)) ''minus'' \<noteq> None
   \<and> dynamics \<lparr>LD = 1, LR = 1, F = 1, R = 1, scale = 1\<rparr> [7, 8, 9] \<lparr>nlp_controls = Map.empty, nlp_states = Map.empty\<rparr> 0 [] []
       = Raised NotImplementedError [7, 8, 9]
   \<and> dynamics_per_suffix (XiaTauFatigue_init \<lparr>LD = 1, LR = 1, F = 1, R = 1, scale = - 3\<rparr>
        \<lparr>LD = 1, LR = 1, F = 1, R = 1, scale = 5\<rparr> True) [7, 8, 9] ''minus''
       \<lparr>nlp_controls = Map.empty, nlp_states = Map.empty\<rparr> 0 [] []
       = Raised NotImplementedError [7, 8, 9]"
  using unsupported_control_kind [where self = "\<lparr>LD = 1, LR = 1, F = 1, R = 1, scale = 1\<rparr>" and dxdt = "[7, 8, 9]" and v = "[7, 8, 9]"
      and nlp = "\<lparr>nlp_controls = Map.empty, nlp_states = Map.empty\<rparr>" and index = 0
      and states = "[]" and controls = "[]" and sfx = "''minus''"
      and tau = "(XiaTauFatigue_init \<lparr>LD = 1, LR = 1, F = 1, R = 1, scale = - 3\<rparr>
        \<lparr>LD = 1, LR = 1, F = 1, R = 1, scale = 5\<rparr> True)"]
  by (simp add: init_models)

section \<open>Bounds and initial guesses\<close>

text \<open>
  C7 (as amended). For every position \<open>k\<close> of the composite, \<open>default_bounds(k, STATES)\<close> is
  the result of the sub-model at \<open>k\<close>; for control variables, whatever the flag \<open>state_only\<close>,
  the result is the one-component pair with lower bound \<open>scale\<close> of that sub-model at
  position 0 (and 0 elsewhere) and upper bound \<open>scale\<close> at position 1 (and 0 elsewhere).
\<close>

theorem tau_default_bounds_rule:
  "distinct (map fst (models tau)) \<Longrightarrow> k < length (models tau) \<Longrightarrow>
     tau_default_bounds tau k STATES = Inr (default_bounds (snd (models tau ! k)) STATES)
     \<and> tau_default_bounds tau k CONTROLS =
         Inr ([if k = 0 then scale (snd (models tau ! k)) else 0],
              [if k = 1 then scale (snd (models tau ! k)) else 0])"
  by (simp add: tau_default_bounds_def Let_def bind_err_def models_at_position)

theorem tau_default_bounds_rule_witness:
  "distinct (map fst (models (XiaTauFatigue_init \<lparr>LD = 1, LR = 1, F = 1, R = 1, scale = - 3\<rparr>
        \<lparr>LD = 1, LR = 1, F = 1, R = 1, scale = 5\<rparr> False)))
   \<and> 1 < length (models (XiaTauFatigue_init \<lparr>LD = 1, LR = 1, F = 1, R = 1, scale = - 3\<rparr>
        \<lparr>LD = 1, LR = 1, F = 1, R = 1, scale = 5\<rparr> False))
   \<and> tau_default_bounds (XiaTauFatigue_init \<lparr>LD = 1, LR = 1, F = 1, R = 1, scale = - 3\<rparr>
        \<lparr>LD = 1, LR = 1, F = 1, R = 1, scale = 5\<rparr> False) 1 STATES = Inr ([0, 0, 0], [1, 1, 1])
   \<and> tau_default_bounds (XiaTauFatigue_init \<lparr>LD = 1, LR = 1, F = 1, R = 1, scale = - 3\<rparr>
        \<lparr>LD = 1, LR = 1, F = 1, R = 1, scale = 5\<rparr> False) 1 CONTROLS = Inr ([0], [5])"
  using tau_default_bounds_rule [of "(XiaTauFatigue_init \<lparr>LD = 1, LR = 1, F = 1, R = 1, scale = - 3\<rparr>
        \<lparr>LD = 1, LR = 1, F = 1, R = 1, scale = 5\<rparr> False)" 1]
  by (simp add: init_models default_bounds_def)

text \<open>
  C7 as stated ties the asymmetric split of the control bounds to a composite that is not
  \<open>state_only\<close>. A composite built with \<open>state_only = True\<close> returns the same split.
\<close>

theorem tau_default_bounds_state_only_counterexample:
  "state_only (XiaTauFatigue_init \<lparr>LD = 1, LR = 1, F = 1, R = 1, scale = - 3\<rparr>
        \<lparr>LD = 1, LR = 1, F = 1, R = 1, scale = 5\<rparr> True)
   \<and> tau_default_bounds (XiaTauFatigue_init \<lparr>LD = 1, LR = 1, F = 1, R = 1, scale = - 3\<rparr>
        \<lparr>LD = 1, LR = 1, F = 1, R = 1, scale = 5\<rparr> True) 0 CONTROLS = Inr ([- 3], [0])
   \<and> tau_default_bounds (XiaTauFatigue_init \<lparr>LD = 1, LR = 1, F = 1, R = 1, scale = - 3\<rparr>
        \<lparr>LD = 1, LR = 1, F = 1, R = 1, scale = 5\<rparr> True) 1 CONTROLS = Inr ([0], [5])"
  by (simp add: XiaTauFatigue_init_def tau_suffix_def tau_default_bounds_def
      convert_to_models_key_def item_def bind_err_def lookup_def)

text \<open>
  C8 (as amended). \<open>XiaFatigue.default_bounds\<close> returns lower \<open>(0, 0, 0)\<close> and upper
  \<open>(1, 1, 1)\<close> for every variable type, controls included.
\<close>

theorem default_bounds_any_type:
  "default_bounds self variable_type = ([0, 0, 0], [1, 1, 1])"
  by (simp add: default_bounds_def)

text \<open>
  C8 as stated expects an unconstrained or degenerate result for control variables. The
  result for controls is the same box as for states: three components, each with lower
  bound 0 below upper bound 1.
\<close>

theorem default_bounds_controls_counterexample:
  "default_bounds \<lparr>LD = 1, LR = 1, F = 1, R = 1, scale = 1\<rparr> CONTROLS = ([0, 0, 0], [1, 1, 1])
   \<and> default_bounds \<lparr>LD = 1, LR = 1, F = 1, R = 1, scale = 1\<rparr> CONTROLS = default_bounds \<lparr>LD = 1, LR = 1, F = 1, R = 1, scale = 1\<rparr> STATES
   \<and> fst (default_bounds \<lparr>LD = 1, LR = 1, F = 1, R = 1, scale = 1\<rparr> CONTROLS) \<noteq> snd (default_bounds \<lparr>LD = 1, LR = 1, F = 1, R = 1, scale = 1\<rparr> CONTROLS)"
  by (simp add: default_bounds_def)

text \<open>
  C9. \<open>XiaFatigue.default_initial_guess\<close> is always \<open>(0, 1, 0)\<close>, whose components sum to
  1, and for every position \<open>k\<close> of the composite \<open>XiaTauFatigue.default_initial_guess\<close>
  returns the result of the sub-model at \<open>k\<close>.
\<close>

theorem default_initial_guess_rule:
  "default_initial_guess m = [0, 1, 0] \<and> sum_list (default_initial_guess m) = 1
   \<and> (distinct (map fst (models tau)) \<longrightarrow> k < length (models tau) \<longrightarrow>
       tau_default_initial_guess tau k variable_type
         = Inr (default_initial_guess (snd (models tau ! k))))"
  by (simp add: tau_default_initial_guess_def default_initial_guess_def bind_err_def
      models_at_position)

theorem default_initial_guess_rule_witness:
  "distinct (map fst (models (XiaTauFatigue_init \<lparr>LD = 1, LR = 1, F = 1, R = 1, scale = - 3\<rparr>
        \<lparr>LD = 1, LR = 1, F = 1, R = 1, scale = 5\<rparr> True)))
   \<and> 1 < length (models (XiaTauFatigue_init \<lparr>LD = 1, LR = 1, F = 1, R = 1, scale = - 3\<rparr>
        \<lparr>LD = 1, LR = 1, F = 1, R = 1, scale = 5\<rparr> True))
   \<and> default_initial_guess \<lparr>LD = 1, LR = 1, F = 1, R = 1, scale = 5\<rparr> = [0, 1, 0]
   \<and> tau_default_initial_guess (XiaTauFatigue_init \<lparr>LD = 1, LR = 1, F = 1, R = 1, scale = - 3\<rparr>
        \<lparr>LD = 1, LR = 1, F = 1, R = 1, scale = 5\<rparr> True) 1 STATES = Inr (default_initial_guess \<lparr>LD = 1, LR = 1, F = 1, R = 1, scale = 5\<rparr>)"
  using default_initial_guess_rule [of "\<lparr>LD = 1, LR = 1, F = 1, R = 1, scale = 5\<rparr>" "(XiaTauFatigue_init \<lparr>LD = 1, LR = 1, F = 1, R = 1, scale = - 3\<rparr>
        \<lparr>LD = 1, LR = 1, F = 1, R = 1, scale = 5\<rparr> True)" 1 STATES]
  by (simp add: init_models)

text \<open>
  C10. \<open>XiaTauFatigue.default_initial_guess\<close> does not depend on its \<open>variable_type\<close>
  argument: for every position \<open>k\<close> of the composite and every variable type it returns the
  three-component state guess \<open>(0, 1, 0)\<close> of the sub-model, for controls as for states.
\<close>

theorem tau_default_initial_guess_ignores_type:
  "distinct (map fst (models tau)) \<Longrightarrow> k < length (models tau) \<Longrightarrow>
     tau_default_initial_guess tau k variable_type = Inr [0, 1, 0]
     \<and> tau_default_initial_guess tau k variable_type
         = Inr (default_initial_guess (snd (models tau ! k)))
     \<and> tau_default_initial_guess tau k STATES = tau_default_initial_guess tau k CONTROLS"
  by (simp add: tau_default_initial_guess_def default_initial_guess_def bind_err_def
      models_at_position)

theorem tau_default_initial_guess_ignores_type_witness:
  "distinct (map fst (models (XiaTauFatigue_init \<lparr>LD = 1, LR = 1, F = 1, R = 1, scale = - 3\<rparr>
        \<lparr>LD = 1, LR = 1, F = 1, R = 1, scale = 5\<rparr> False)))
   \<and> 0 < length (models (XiaTauFatigue_init \<lparr>LD = 1, LR = 1, F = 1, R = 1, scale = - 3\<rparr>
        \<lparr>LD = 1, LR = 1, F = 1, R = 1, scale = 5\<rparr> False))
   \<and> tau_default_initial_guess (XiaTauFatigue_init \<lparr>LD = 1, LR = 1, F = 1, R = 1, scale = - 3\<rparr>
        \<lparr>LD = 1, LR = 1, F = 1, R = 1, scale = 5\<rparr> False) 0 CONTROLS = Inr [0, 1, 0]
   \<and> tau_default_initial_guess (XiaTauFatigue_init \<lparr>LD = 1, LR = 1, F = 1, R = 1, scale = - 3\<rparr>
        \<lparr>LD = 1, LR = 1, F = 1, R = 1, scale = 5\<rparr> False) 0 STATES = tau_default_initial_guess (XiaTauFatigue_init \<lparr>LD = 1, LR = 1, F = 1, R = 1, scale = - 3\<rparr>
        \<lparr>LD = 1, LR = 1, F = 1, R = 1, scale = 5\<rparr> False) 0 CONTROLS"
  using tau_default_initial_guess_ignores_type [of "(XiaTauFatigue_init \<lparr>LD = 1, LR = 1, F = 1, R = 1, scale = - 3\<rparr>
        \<lparr>LD = 1, LR = 1, F = 1, R = 1, scale = 5\<rparr> False)" 0 CONTROLS]
  by (simp add: init_models)

end
